theory Spec2Isabelle
  imports Main "HOL-Library.Word"
begin

section \<open>Atomic scalar: parc_AtomicUint8.c\<close>

text \<open>
  The source is compiled in one of two ways. With \<^verbatim>\<open>PARCLibrary_DISABLE_ATOMICS\<close>
  defined, \<^verbatim>\<open>struct PARCAtomicUint8\<close> is a \<^verbatim>\<open>uint8_t value\<close> and a
  \<^verbatim>\<open>pthread_mutex_t mutex\<close>, and every read-modify-write takes the mutex. Without it
  the object is the bare \<^verbatim>\<open>uint8_t\<close> and every read-modify-write is one compiler
  builtin. The model keeps one record for both builds; the build without the mutex
  never reads or writes the field \<open>mutex\<close>. The field \<^verbatim>\<open>value\<close> of the source is
  called \<open>val\<close> here. Each function takes the build switch as its first argument, and
  its two branches are the two branches of the \<^verbatim>\<open>#ifdef\<close> of the source.

  The model is sequential: one call runs from its first line to its last. A call that
  would wait for ever there (locking a mutex that is held) has the result \<open>None\<close>.
\<close>

datatype pthread_mutex_t = Unlocked | Locked

record PARCAtomicUint8 =
  val :: "8 word"
  mutex :: pthread_mutex_t

text \<open>
  \<^verbatim>\<open>pthread_mutex_init\<close>, \<^verbatim>\<open>pthread_mutex_lock\<close> and \<^verbatim>\<open>pthread_mutex_unlock\<close> of
  POSIX, for a default mutex and a single thread: locking a held mutex never returns.
\<close>

definition pthread_mutex_init :: pthread_mutex_t where
  "pthread_mutex_init = Unlocked"

definition pthread_mutex_lock :: "pthread_mutex_t \<Rightarrow> pthread_mutex_t option" where
  "pthread_mutex_lock m = (case m of Unlocked \<Rightarrow> Some Locked | Locked \<Rightarrow> None)"

definition pthread_mutex_unlock :: "pthread_mutex_t \<Rightarrow> pthread_mutex_t" where
  "pthread_mutex_unlock m = Unlocked"

text \<open>
  The GCC builtins \<^verbatim>\<open>__sync_add_and_fetch\<close>, \<^verbatim>\<open>__sync_sub_and_fetch\<close> and
  \<^verbatim>\<open>__sync_bool_compare_and_swap\<close> on a \<^verbatim>\<open>uint8_t\<close>, as the compiler's manual
  defines them: the first two store \<^verbatim>\<open>*ptr op value\<close> and return the new value, the
  third stores \<^verbatim>\<open>newval\<close> if the current value is \<^verbatim>\<open>oldval\<close> and returns whether
  it did. Each returns its result and the object after the call.
\<close>

definition sync_add_and_fetch :: "PARCAtomicUint8 \<Rightarrow> 8 word \<Rightarrow> 8 word \<times> PARCAtomicUint8" where
  "sync_add_and_fetch p v = (val p + v, p\<lparr>val := val p + v\<rparr>)"

definition sync_sub_and_fetch :: "PARCAtomicUint8 \<Rightarrow> 8 word \<Rightarrow> 8 word \<times> PARCAtomicUint8" where
  "sync_sub_and_fetch p v = (val p - v, p\<lparr>val := val p - v\<rparr>)"

definition sync_bool_compare_and_swap ::
    "PARCAtomicUint8 \<Rightarrow> 8 word \<Rightarrow> 8 word \<Rightarrow> bool \<times> PARCAtomicUint8" where
  "sync_bool_compare_and_swap p oldval newval =
     (if val p = oldval then (True, p\<lparr>val := newval\<rparr>) else (False, p))"

text \<open>
  \<^verbatim>\<open>parcAtomicUint8_Create\<close>: the instance is cleared, then the mutex is initialised and
  the value stored (or, without the mutex, the value alone is stored). The source does
  not test the result of the allocation; the model is of the case where it succeeds.
\<close>

definition parcAtomicUint8_Create :: "bool \<Rightarrow> 8 word \<Rightarrow> PARCAtomicUint8" where
  "parcAtomicUint8_Create DISABLE_ATOMICS v =
     (let result = \<lparr>val = 0, mutex = Unlocked\<rparr> in
      if DISABLE_ATOMICS
      then (result\<lparr>mutex := pthread_mutex_init\<rparr>)\<lparr>val := v\<rparr>
      else result\<lparr>val := v\<rparr>)"

text \<open>\<^verbatim>\<open>parcAtomicUint8_GetValue\<close> reads the value in both builds, without the mutex.\<close>

definition parcAtomicUint8_GetValue :: "bool \<Rightarrow> PARCAtomicUint8 \<Rightarrow> 8 word" where
  "parcAtomicUint8_GetValue DISABLE_ATOMICS instance =
     (if DISABLE_ATOMICS then val instance else val instance)"

definition parcAtomicUint8_AddImpl ::
    "bool \<Rightarrow> PARCAtomicUint8 \<Rightarrow> 8 word \<Rightarrow> (8 word \<times> PARCAtomicUint8) option" where
  "parcAtomicUint8_AddImpl DISABLE_ATOMICS v addend =
     (if DISABLE_ATOMICS then
        (case pthread_mutex_lock (mutex v) of
           None \<Rightarrow> None
         | Some m \<Rightarrow>
             (let v1 = v\<lparr>mutex := m\<rparr>;
                  v2 = v1\<lparr>val := val v1 + addend\<rparr>;
                  result = val v2;
                  v3 = v2\<lparr>mutex := pthread_mutex_unlock (mutex v2)\<rparr>
              in Some (result, v3)))
      else Some (sync_add_and_fetch v addend))"

definition parcAtomicUint8_SubtractImpl ::
    "bool \<Rightarrow> PARCAtomicUint8 \<Rightarrow> 8 word \<Rightarrow> (8 word \<times> PARCAtomicUint8) option" where
  "parcAtomicUint8_SubtractImpl DISABLE_ATOMICS v subtrahend =
     (if DISABLE_ATOMICS then
        (case pthread_mutex_lock (mutex v) of
           None \<Rightarrow> None
         | Some m \<Rightarrow>
             (let v1 = v\<lparr>mutex := m\<rparr>;
                  v2 = v1\<lparr>val := val v1 - subtrahend\<rparr>;
                  result = val v2;
                  v3 = v2\<lparr>mutex := pthread_mutex_unlock (mutex v2)\<rparr>
              in Some (result, v3)))
      else Some (sync_sub_and_fetch v subtrahend))"

definition parcAtomicUint8_CompareAndSwapImpl ::
    "bool \<Rightarrow> PARCAtomicUint8 \<Rightarrow> 8 word \<Rightarrow> 8 word \<Rightarrow> (bool \<times> PARCAtomicUint8) option" where
  "parcAtomicUint8_CompareAndSwapImpl DISABLE_ATOMICS v predicate newValue =
     (if DISABLE_ATOMICS then
        (case pthread_mutex_lock (mutex v) of
           None \<Rightarrow> None
         | Some m \<Rightarrow>
             (let v1 = v\<lparr>mutex := m\<rparr>;
                  (result, v2) =
                     (if val v1 = predicate then (True, v1\<lparr>val := newValue\<rparr>) else (False, v1));
                  v3 = v2\<lparr>mutex := pthread_mutex_unlock (mutex v2)\<rparr>
              in Some (result, v3)))
      else Some (sync_bool_compare_and_swap v predicate newValue))"

text \<open>
  \<^verbatim>\<open>parcAtomicUint8_Compare\<close>. The two \<^verbatim>\<open>uint8_t\<close> values are promoted to \<^verbatim>\<open>int\<close> and
  subtracted there, and the difference (between -255 and 255) is stored in an
  \<^verbatim>\<open>int8_t\<close>. The conversion of a value that does not fit is implementation-defined;
  GCC and Clang reduce it modulo \<open>2 ^ 8\<close>, which is \<open>int8_t_of_int\<close>.
\<close>

definition int8_t_of_int :: "int \<Rightarrow> int" where
  "int8_t_of_int i = sint (word_of_int i :: 8 word)"

definition parcAtomicUint8_Compare :: "bool \<Rightarrow> PARCAtomicUint8 \<Rightarrow> PARCAtomicUint8 \<Rightarrow> int" where
  "parcAtomicUint8_Compare DISABLE_ATOMICS instance other =
     (let comparison =
            int8_t_of_int (uint (parcAtomicUint8_GetValue DISABLE_ATOMICS instance)
                           - uint (parcAtomicUint8_GetValue DISABLE_ATOMICS other))
      in if comparison < 0 then -1 else if comparison > 0 then 1 else 0)"

definition parcAtomicUint8_Equals :: "bool \<Rightarrow> PARCAtomicUint8 \<Rightarrow> PARCAtomicUint8 \<Rightarrow> bool" where
  "parcAtomicUint8_Equals DISABLE_ATOMICS x y =
     (parcAtomicUint8_GetValue DISABLE_ATOMICS x = parcAtomicUint8_GetValue DISABLE_ATOMICS y)"

text \<open>
  A sequential run of calls on one scalar, for stating that the two builds cannot be told
  apart by a caller: each call gives its result and the scalar for the next call.
\<close>

datatype atomic_call =
  GetValue | Add "8 word" | Subtract "8 word" | CompareAndSwap "8 word" "8 word"

datatype atomic_result = Value "8 word" | Swapped bool

fun call ::
    "bool \<Rightarrow> PARCAtomicUint8 \<Rightarrow> atomic_call \<Rightarrow> (atomic_result \<times> PARCAtomicUint8) option" where
  "call b s GetValue = Some (Value (parcAtomicUint8_GetValue b s), s)"
| "call b s (Add d) = map_option (map_prod Value id) (parcAtomicUint8_AddImpl b s d)"
| "call b s (Subtract d) = map_option (map_prod Value id) (parcAtomicUint8_SubtractImpl b s d)"
| "call b s (CompareAndSwap x y) =
     map_option (map_prod Swapped id) (parcAtomicUint8_CompareAndSwapImpl b s x y)"

fun calls ::
    "bool \<Rightarrow> PARCAtomicUint8 \<Rightarrow> atomic_call list
       \<Rightarrow> (atomic_result list \<times> PARCAtomicUint8) option" where
  "calls b s [] = Some ([], s)"
| "calls b s (c # cs) =
     (case call b s c of
        None \<Rightarrow> None
      | Some (r, s') \<Rightarrow> map_option (map_prod ((#) r) id) (calls b s' cs))"

section \<open>Key/value pair: parc_KeyValue.c\<close>

text \<open>
  \<^verbatim>\<open>struct parc_key_value\<close> holds two object pointers; the key is never \<^verbatim>\<open>NULL\<close>
  (\<^verbatim>\<open>parcKeyValue_Create\<close> asserts it), the value may be. The field \<^verbatim>\<open>value\<close> of the
  source is called \<open>kv_value\<close> here. The objects are of an arbitrary type \<open>'o\<close>, and
  \<^verbatim>\<open>parcObject_Equals\<close>, \<^verbatim>\<open>parcObject_Compare\<close> and \<^verbatim>\<open>parcObject_HashCode\<close>, which
  dispatch to the capability table of the object, are parameters of the functions that
  call them.
\<close>

record 'o parc_key_value =
  key :: 'o
  kv_value :: "'o option"

text \<open>
  \<^verbatim>\<open>parcKeyValue_Equals\<close> and \<^verbatim>\<open>parcKeyValue_HashCode\<close> dereference their arguments
  at once, so they take the structures themselves.
\<close>

definition parcKeyValue_Equals ::
    "('o \<Rightarrow> 'o \<Rightarrow> bool) \<Rightarrow> 'o parc_key_value \<Rightarrow> 'o parc_key_value \<Rightarrow> bool" where
  "parcKeyValue_Equals parcObject_Equals a b =
     (let result = parcObject_Equals (key a) (key b) in
      if kv_value a = None \<or> kv_value b = None
      then result \<and> (kv_value a = kv_value b)
      else result \<and> parcObject_Equals (the (kv_value a)) (the (kv_value b)))"

text \<open>\<^verbatim>\<open>parcKeyValue_Compare\<close> tests its arguments against \<^verbatim>\<open>NULL\<close>, which is \<open>None\<close>.\<close>

definition parcKeyValue_Compare ::
    "('o \<Rightarrow> 'o \<Rightarrow> int) \<Rightarrow> 'o parc_key_value option \<Rightarrow> 'o parc_key_value option \<Rightarrow> int" where
  "parcKeyValue_Compare parcObject_Compare a b =
     (if a = None \<and> b = None then 0
      else if a \<noteq> None \<and> b = None then 1
      else if a = None \<and> b \<noteq> None then - 1
      else parcObject_Compare (key (the a)) (key (the b)))"

definition parcKeyValue_HashCode :: "('o \<Rightarrow> 'h) \<Rightarrow> 'o parc_key_value \<Rightarrow> 'h" where
  "parcKeyValue_HashCode parcObject_HashCode keyValue = parcObject_HashCode (key keyValue)"

definition parcKeyValue_EqualKeys ::
    "('o \<Rightarrow> 'o \<Rightarrow> bool) \<Rightarrow> 'o parc_key_value \<Rightarrow> 'o parc_key_value \<Rightarrow> bool" where
  "parcKeyValue_EqualKeys parcObject_Equals a b = parcObject_Equals (key a) (key b)"

section \<open>Allocation\<close>

text \<open>
  The allocator is a state of the model: \<open>available m n\<close> says whether the \<open>n\<close>-th
  request finds memory, and \<open>requests m\<close> counts the requests made so far, so that
  every request a function makes is visible in the state it returns.
\<close>

record memory =
  available :: "nat \<Rightarrow> bool"
  requests :: nat

definition parcMemory_Allocate :: "memory \<Rightarrow> bool \<times> memory" where
  "parcMemory_Allocate m = (available m (requests m), m\<lparr>requests := requests m + 1\<rparr>)"

text \<open>
  Modelled from the spec: \<^verbatim>\<open>parcObject_CreateInstance\<close> (parc_Object.c is not among
  the sources). It allocates header and payload in one request and fails when the
  allocation fails; the callers in the sources test its result against \<^verbatim>\<open>NULL\<close>.
\<close>

definition parcObject_CreateInstance :: "memory \<Rightarrow> bool \<times> memory" where
  "parcObject_CreateInstance m = parcMemory_Allocate m"

text \<open>
  Modelled from the spec: \<^verbatim>\<open>parcMemory_StringDuplicate\<close> (parc_Memory.c is not among
  the sources). It allocates a copy of the string in one request; the result is
  \<^verbatim>\<open>NULL\<close> (\<open>None\<close>) when the allocation fails.
\<close>

definition parcMemory_StringDuplicate :: "memory \<Rightarrow> string \<Rightarrow> string option \<times> memory" where
  "parcMemory_StringDuplicate m s =
     (let (ok, m') = parcMemory_Allocate m in (if ok then Some s else None, m'))"

section \<open>Identity file: parc_IdentityFile.c\<close>

text \<open>A \<^verbatim>\<open>char *\<close> field is a string, or \<open>None\<close> for \<^verbatim>\<open>NULL\<close>.\<close>

record parc_identity_file =
  fileName :: "string option"
  passWord :: "string option"

text \<open>
  \<^verbatim>\<open>parcIdentityFile_Create\<close> returns the new instance (\<open>None\<close> for \<^verbatim>\<open>NULL\<close>) and
  the allocator after the call. Its arguments go to \<^verbatim>\<open>strlen\<close>, so they are strings.
\<close>

definition parcIdentityFile_Create ::
    "memory \<Rightarrow> string \<Rightarrow> string \<Rightarrow> parc_identity_file option \<times> memory" where
  "parcIdentityFile_Create m fileName0 passWord0 =
     (let (instance_ok, m1) = parcObject_CreateInstance m in
      if instance_ok then
        (let (f, m2) = parcMemory_StringDuplicate m1 fileName0;
             (p, m3) = parcMemory_StringDuplicate m2 passWord0
         in (Some \<lparr>fileName = f, passWord = p\<rparr>, m3))
      else (None, m1))"

text \<open>
  \<^verbatim>\<open>parcIdentityFile_Equals\<close> compares the two pointers before it reads anything, so
  here a pointer is an address (\<open>None\<close> for \<^verbatim>\<open>NULL\<close>) and the instances live in a heap.
  Reading through a pointer that is \<^verbatim>\<open>NULL\<close> or points to no instance is undefined
  behaviour in C; the model makes it the result \<open>Inl UndefinedBehaviour\<close>.
\<close>

datatype fault = UndefinedBehaviour

type_synonym address = nat
type_synonym identity_heap = "address \<rightharpoonup> parc_identity_file"

definition parcIdentityFile_GetFileName ::
    "identity_heap \<Rightarrow> address option \<Rightarrow> fault + string option" where
  "parcIdentityFile_GetFileName h identity =
     (case identity of
        None \<Rightarrow> Inl UndefinedBehaviour
      | Some p \<Rightarrow> (case h p of None \<Rightarrow> Inl UndefinedBehaviour | Some obj \<Rightarrow> Inr (fileName obj)))"

definition parcIdentityFile_GetPassWord ::
    "identity_heap \<Rightarrow> address option \<Rightarrow> fault + string option" where
  "parcIdentityFile_GetPassWord h identity =
     (case identity of
        None \<Rightarrow> Inl UndefinedBehaviour
      | Some p \<Rightarrow> (case h p of None \<Rightarrow> Inl UndefinedBehaviour | Some obj \<Rightarrow> Inr (passWord obj)))"

text \<open>
  \<^verbatim>\<open>strcmp\<close> of the C library, on strings without their terminator: the sign of the
  difference of the first two bytes that differ, read as \<^verbatim>\<open>unsigned char\<close>.
\<close>

fun strcmp_bytes :: "string \<Rightarrow> string \<Rightarrow> int" where
  "strcmp_bytes [] [] = 0"
| "strcmp_bytes [] (y # ys) = - 1"
| "strcmp_bytes (x # xs) [] = 1"
| "strcmp_bytes (x # xs) (y # ys) =
     (if x = y then strcmp_bytes xs ys
      else if (of_char x :: nat) < of_char y then - 1 else 1)"

definition strcmp :: "string option \<Rightarrow> string option \<Rightarrow> fault + int" where
  "strcmp s1 s2 =
     (case (s1, s2) of
        (Some a, Some b) \<Rightarrow> Inr (strcmp_bytes a b)
      | _ \<Rightarrow> Inl UndefinedBehaviour)"

definition parcIdentityFile_Equals ::
    "identity_heap \<Rightarrow> address option \<Rightarrow> address option \<Rightarrow> fault + bool" where
  "parcIdentityFile_Equals h a b =
     (if a = b then Inr True
      else if a = None \<or> b = None then Inr False
      else
        (case parcIdentityFile_GetFileName h a of Inl e \<Rightarrow> Inl e | Inr fa \<Rightarrow>
         case parcIdentityFile_GetFileName h b of Inl e \<Rightarrow> Inl e | Inr fb \<Rightarrow>
         case strcmp fa fb of Inl e \<Rightarrow> Inl e | Inr c1 \<Rightarrow>
           if c1 \<noteq> 0 then Inr False
           else
             (case parcIdentityFile_GetPassWord h a of Inl e \<Rightarrow> Inl e | Inr pa \<Rightarrow>
              case parcIdentityFile_GetPassWord h b of Inl e \<Rightarrow> Inl e | Inr pb \<Rightarrow>
              case strcmp pa pb of Inl e \<Rightarrow> Inl e | Inr c2 \<Rightarrow>
                if c2 \<noteq> 0 then Inr False else Inr True)))"

section \<open>Logger: parc_Log.c\<close>

datatype PARCLogLevel =
    PARCLogLevel_Off
  | PARCLogLevel_Emergency
  | PARCLogLevel_Alert
  | PARCLogLevel_Critical
  | PARCLogLevel_Error
  | PARCLogLevel_Warning
  | PARCLogLevel_Notice
  | PARCLogLevel_Info
  | PARCLogLevel_Debug

text \<open>
  Modelled from the spec: the reporter is a managed object, of which only the reference
  count is kept, and \<^verbatim>\<open>parcLogReporter_Acquire\<close> (parc_LogReporter.c is not among the
  sources) increments the count and returns the same handle.
\<close>

record PARCLogReporter =
  references :: nat

definition parcLogReporter_Acquire :: "PARCLogReporter \<Rightarrow> PARCLogReporter" where
  "parcLogReporter_Acquire r = r\<lparr>references := references r + 1\<rparr>"

record PARCLog =
  hostName :: "string option"
  applicationName :: "string option"
  processId :: "string option"
  messageId :: "64 word"
  level :: PARCLogLevel
  reporter :: PARCLogReporter

definition nilvalue :: string where
  "nilvalue = ''-''"

text \<open>
  \<^verbatim>\<open>trapOutOfMemory\<close> is a LongBow trap: it reports the event and aborts the process,
  so the call does not return to its caller. The result of \<^verbatim>\<open>parcLog_Create\<close> is the
  trap (\<open>Inl\<close>) or the new instance (\<open>Inr\<close>), and the allocator after the call. The
  three strings may be \<^verbatim>\<open>NULL\<close> (\<open>None\<close>).
\<close>

datatype trap = OutOfMemory

definition parcLog_Create ::
    "memory \<Rightarrow> string option \<Rightarrow> string option \<Rightarrow> string option \<Rightarrow> PARCLogReporter
       \<Rightarrow> (trap + PARCLog) \<times> memory" where
  "parcLog_Create m hostName0 applicationName0 processId0 reporter0 =
     (let applicationName1 = (case applicationName0 of None \<Rightarrow> nilvalue | Some s \<Rightarrow> s);
          hostName1 = (case hostName0 of None \<Rightarrow> nilvalue | Some s \<Rightarrow> s);
          processId1 = (case processId0 of None \<Rightarrow> nilvalue | Some s \<Rightarrow> s);
          (result_ok, m1) = parcObject_CreateInstance m
      in if \<not> result_ok then (Inl OutOfMemory, m1)
         else
           (let (h, m2) = parcMemory_StringDuplicate m1 hostName1;
                (a, m3) = parcMemory_StringDuplicate m2 applicationName1;
                (p, m4) = parcMemory_StringDuplicate m3 processId1
            in (Inr \<lparr>hostName = h, applicationName = a, processId = p, messageId = 0,
                     level = PARCLogLevel_Off,
                     reporter = parcLogReporter_Acquire reporter0\<rparr>, m4)))"

section \<open>Ring buffer: parc_RingBuffer_NxM.c and its test\<close>

text \<open>
  parc_RingBuffer_NxM.c is not among the sources; its test is. The ring is modelled from
  the spec. The model is sequential: a call that would suspend the calling thread has
  the result \<open>Inl WouldBlock\<close>, since no other thread can make room or data.
\<close>

datatype 'a slot = Empty | Filled 'a

datatype queue_state = Active | Draining | Destroyed

datatype queue_error = InvalidArgument | InvariantViolation | NotAccepted | WouldBlock

text \<open>
  Modelled from the spec: the ring buffer. A ring of capacity \<open>N\<close> has \<open>N\<close> slots, each
  \<open>Empty\<close> or \<open>Filled\<close> with one object reference, a head index and a tail index modulo
  \<open>N\<close>, a count of the queued items, one of the states \<open>Active\<close>, \<open>Draining\<close>,
  \<open>Destroyed\<close> and the destroyer callback given at creation. The callback acts on a
  state \<open>'w\<close> of the caller's.
\<close>

record ('a, 'w) PARCRingBufferNxM =
  capacity :: nat
  slots :: "'a slot list"
  head :: nat
  tail :: nat
  count :: nat
  state :: queue_state
  destroyer :: "'a \<Rightarrow> 'w \<Rightarrow> 'w"

text \<open>Modelled from the spec: Create(capacity, destroyerCallback), capacity at least 1.\<close>

definition parcRingBufferNxM_Create ::
    "nat \<Rightarrow> ('a \<Rightarrow> 'w \<Rightarrow> 'w) \<Rightarrow> queue_error + ('a, 'w) PARCRingBufferNxM" where
  "parcRingBufferNxM_Create n d =
     (if 1 \<le> n
      then Inr \<lparr>capacity = n, slots = replicate n Empty, head = 0, tail = 0, count = 0,
                state = Active, destroyer = d\<rparr>
      else Inl InvalidArgument)"

text \<open>
  Modelled from the spec: Put blocks while the count is the capacity; otherwise it
  stores the item in the tail slot, advances the tail and increments the count.
\<close>

definition parcRingBufferNxM_Put ::
    "('a, 'w) PARCRingBufferNxM \<Rightarrow> 'a \<Rightarrow> queue_error + ('a, 'w) PARCRingBufferNxM" where
  "parcRingBufferNxM_Put q item =
     (if state q \<noteq> Active then Inl NotAccepted
      else if count q = capacity q then Inl WouldBlock
      else Inr (q\<lparr>slots := (slots q)[tail q := Filled item],
                  tail := (tail q + 1) mod capacity q,
                  count := count q + 1\<rparr>))"

text \<open>
  Modelled from the spec: Get blocks while the count is 0; otherwise it removes the item
  of the head slot, advances the head and decrements the count.
\<close>

definition parcRingBufferNxM_Get ::
    "('a, 'w) PARCRingBufferNxM \<Rightarrow> queue_error + ('a \<times> ('a, 'w) PARCRingBufferNxM)" where
  "parcRingBufferNxM_Get q =
     (if state q \<noteq> Active then Inl NotAccepted
      else if count q = 0 then Inl WouldBlock
      else if length (slots q) \<le> head q then Inl InvariantViolation
      else
        (case slots q ! head q of
           Empty \<Rightarrow> Inl InvariantViolation
         | Filled item \<Rightarrow>
             Inr (item, q\<lparr>slots := (slots q)[head q := Empty],
                          head := (head q + 1) mod capacity q,
                          count := count q - 1\<rparr>)))"

text \<open>
  Modelled from the spec: the walk of Release/Destroy over the slots, in the order given,
  invoking the destroyer callback for every slot still \<open>Filled\<close>.
\<close>

fun drain :: "('a \<Rightarrow> 'w \<Rightarrow> 'w) \<Rightarrow> 'a slot list \<Rightarrow> 'w \<Rightarrow> 'w" where
  "drain d [] w = w"
| "drain d (Empty # ss) w = drain d ss w"
| "drain d (Filled item # ss) w = drain d ss (d item w)"

text \<open>
  Modelled from the spec: Release/Destroy goes to \<open>Draining\<close>, invokes the destroyer
  callback for every slot still \<open>Filled\<close>, in head-to-tail order (the slots from the
  head on are \<open>rotate (head q) (slots q)\<close>), then frees the storage. Destroying a queue
  twice is an invariant violation.
\<close>

definition parcRingBufferNxM_Release ::
    "('a, 'w) PARCRingBufferNxM \<Rightarrow> 'w \<Rightarrow> queue_error + (('a, 'w) PARCRingBufferNxM \<times> 'w)" where
  "parcRingBufferNxM_Release q w =
     (if state q \<noteq> Active then Inl InvariantViolation
      else
        (let q1 = q\<lparr>state := Draining\<rparr>;
             w1 = drain (destroyer q1) (rotate (head q1) (slots q1)) w
         in Inr (q1\<lparr>slots := [], count := 0, state := Destroyed\<rparr>, w1)))"

text \<open>
  The live managed objects are the domain of a map from handles to reference counts;
  the allocations that \<^verbatim>\<open>parcMemory_Outstanding\<close> counts are that domain.
\<close>

type_synonym handle = nat
type_synonym refcounts = "handle \<rightharpoonup> nat"

datatype fatal = Fatal

text \<open>
  Modelled from the spec: Release of the object runtime, which \<^verbatim>\<open>parcBuffer_Release\<close>
  is for a buffer (parc_Object.c and parc_Buffer.c are not among the sources). It
  decrements the reference count and frees the object when the result is 0; releasing
  an object that is not live is a fatal invariant violation.
\<close>

definition parcBuffer_Release :: "handle \<Rightarrow> refcounts \<Rightarrow> fatal + refcounts" where
  "parcBuffer_Release b refs =
     (case refs b of
        None \<Rightarrow> Inl Fatal
      | Some c \<Rightarrow>
          if c = 0 then Inl Fatal
          else if c - 1 = 0 then Inr (refs(b := None))
          else Inr (refs(b \<mapsto> c - 1)))"

text \<open>
  \<^verbatim>\<open>_testDestoryer\<close> of test_parc_RingBuffer_NxM.c releases the buffer it is given. A
  fatal violation ends the run, so the state it acts on is \<open>fatal + refcounts\<close>.
\<close>

definition testDestoryer :: "handle \<Rightarrow> fatal + refcounts \<Rightarrow> fatal + refcounts" where
  "testDestoryer ptr w = (case w of Inl e \<Rightarrow> Inl e | Inr refs \<Rightarrow> parcBuffer_Release ptr refs)"

text \<open>
  The test case \<^verbatim>\<open>_destroy\<close> of test_parc_RingBuffer_NxM.c: create a ring, put
  something in it and do not remove it, release the ring. The test puts one buffer into
  a ring of capacity 128; here the capacity, the callback and the items are arguments.
\<close>

fun put_all ::
    "('a, 'w) PARCRingBufferNxM \<Rightarrow> 'a list \<Rightarrow> queue_error + ('a, 'w) PARCRingBufferNxM" where
  "put_all q [] = Inr q"
| "put_all q (x # xs) =
     (case parcRingBufferNxM_Put q x of Inl e \<Rightarrow> Inl e | Inr q' \<Rightarrow> put_all q' xs)"

definition destroy_test ::
    "nat \<Rightarrow> ('a \<Rightarrow> 'w \<Rightarrow> 'w) \<Rightarrow> 'a list \<Rightarrow> 'w
       \<Rightarrow> queue_error + (('a, 'w) PARCRingBufferNxM \<times> 'w)" where
  "destroy_test n d items w =
     (case parcRingBufferNxM_Create n d of
        Inl e \<Rightarrow> Inl e
      | Inr ring \<Rightarrow>
          (case put_all ring items of
             Inl e \<Rightarrow> Inl e
           | Inr ring' \<Rightarrow> parcRingBufferNxM_Release ring' w))"

section \<open>Fixtures\<close>

text \<open>An allocator in which every request fails.\<close>

definition no_memory :: memory where
  "no_memory = \<lparr>available = (\<lambda>n. False), requests = 0\<rparr>"

text \<open>A destroyer callback that appends its argument to the list of the calls made.\<close>

definition record_call :: "'a \<Rightarrow> 'a list \<Rightarrow> 'a list" where
  "record_call x made = made @ [x]"

section \<open>Properties of the atomic scalar\<close>

text \<open>
  What the three read-modify-write operations compute, in either build, when the mutex
  is free on entry (which concerns only the build that has one).
\<close>

lemma CompareAndSwapImpl_eq:
  "(DISABLE_ATOMICS \<longrightarrow> mutex s = Unlocked) \<Longrightarrow>
   parcAtomicUint8_CompareAndSwapImpl DISABLE_ATOMICS s x y =
     Some (if val s = x then (True, s\<lparr>val := y\<rparr>) else (False, s))"
  by (cases s)
     (auto simp: parcAtomicUint8_CompareAndSwapImpl_def pthread_mutex_lock_def
        pthread_mutex_unlock_def sync_bool_compare_and_swap_def)

lemma AddImpl_eq:
  "(DISABLE_ATOMICS \<longrightarrow> mutex s = Unlocked) \<Longrightarrow>
   parcAtomicUint8_AddImpl DISABLE_ATOMICS s d = Some (val s + d, s\<lparr>val := val s + d\<rparr>)"
  by (cases s)
     (auto simp: parcAtomicUint8_AddImpl_def pthread_mutex_lock_def
        pthread_mutex_unlock_def sync_add_and_fetch_def Let_def)

lemma SubtractImpl_eq:
  "(DISABLE_ATOMICS \<longrightarrow> mutex s = Unlocked) \<Longrightarrow>
   parcAtomicUint8_SubtractImpl DISABLE_ATOMICS s d = Some (val s - d, s\<lparr>val := val s - d\<rparr>)"
  by (cases s)
     (auto simp: parcAtomicUint8_SubtractImpl_def pthread_mutex_lock_def
        pthread_mutex_unlock_def sync_sub_and_fetch_def Let_def)

text \<open>
  The mutex is free after \<^verbatim>\<open>parcAtomicUint8_Create\<close>, and the lemmas above show that
  every operation leaves it as it found it: in a sequential run it is free at every call.
\<close>

lemma Create_mutex_free: "mutex (parcAtomicUint8_Create DISABLE_ATOMICS v) = Unlocked"
  by (simp add: parcAtomicUint8_Create_def pthread_mutex_init_def Let_def)

text \<open>
  Hence any sequence of calls on a new scalar runs to its end, with the same results and
  the same final scalar in both builds.
\<close>

lemma call_agree:
  assumes "mutex s = Unlocked"
  shows "\<exists>r s'. call True s c = Some (r, s') \<and> call False s c = Some (r, s')
                \<and> mutex s' = Unlocked"
  using assms
  by (cases c)
     (simp_all add: AddImpl_eq SubtractImpl_eq CompareAndSwapImpl_eq
        parcAtomicUint8_GetValue_def)

lemma calls_agree:
  assumes "mutex s = Unlocked"
  shows "calls True s cs = calls False s cs \<and> calls False s cs \<noteq> None"
  using assms
proof (induction cs arbitrary: s)
  case Nil
  then show ?case by simp
next
  case (Cons c cs)
  from call_agree [OF Cons.prems, of c] obtain r s'
    where "call True s c = Some (r, s')" "call False s c = Some (r, s')" "mutex s' = Unlocked"
    by blast
  with Cons.IH [of s'] show ?case by auto
qed

lemma calls_agree_from_Create:
  "calls True (parcAtomicUint8_Create True v) cs
     = calls False (parcAtomicUint8_Create False v) cs
   \<and> calls False (parcAtomicUint8_Create False v) cs \<noteq> None"
proof -
  have "parcAtomicUint8_Create True v = parcAtomicUint8_Create False v"
    by (simp add: parcAtomicUint8_Create_def pthread_mutex_init_def Let_def)
  with calls_agree [of "parcAtomicUint8_Create False v" cs] show ?thesis
    by (simp add: Create_mutex_free)
qed

text \<open>
  Claim C1. In either build, compare-and-swap with expected value \<open>x\<close> and new value \<open>y\<close>
  on a scalar that holds \<open>x\<close> returns true and leaves the scalar holding \<open>y\<close>; on a
  scalar that holds another value it returns false and leaves the scalar as it was. The
  call is made once and returns.
\<close>

theorem compareAndSwap_succeeds_iff_expected:
  assumes "DISABLE_ATOMICS \<longrightarrow> mutex s = Unlocked"
  shows "(val s = x \<longrightarrow>
            parcAtomicUint8_CompareAndSwapImpl DISABLE_ATOMICS s x y = Some (True, s\<lparr>val := y\<rparr>))
       \<and> (val s \<noteq> x \<longrightarrow>
            parcAtomicUint8_CompareAndSwapImpl DISABLE_ATOMICS s x y = Some (False, s))"
  using CompareAndSwapImpl_eq [OF assms, of x y] by simp

theorem compareAndSwap_succeeds_iff_expected_witness:
  "parcAtomicUint8_CompareAndSwapImpl True \<lparr>val = 5, mutex = Unlocked\<rparr> 5 9
     = Some (True, \<lparr>val = 9, mutex = Unlocked\<rparr>)
   \<and> parcAtomicUint8_CompareAndSwapImpl True \<lparr>val = 7, mutex = Unlocked\<rparr> 5 9
     = Some (False, \<lparr>val = 7, mutex = Unlocked\<rparr>)
   \<and> parcAtomicUint8_CompareAndSwapImpl False \<lparr>val = 5, mutex = Unlocked\<rparr> 5 9
     = Some (True, \<lparr>val = 9, mutex = Unlocked\<rparr>)
   \<and> parcAtomicUint8_CompareAndSwapImpl False \<lparr>val = 7, mutex = Unlocked\<rparr> 5 9
     = Some (False, \<lparr>val = 7, mutex = Unlocked\<rparr>)"
  using compareAndSwap_succeeds_iff_expected [of True "\<lparr>val = 5, mutex = Unlocked\<rparr>" 5 9]
        compareAndSwap_succeeds_iff_expected [of True "\<lparr>val = 7, mutex = Unlocked\<rparr>" 5 9]
        compareAndSwap_succeeds_iff_expected [of False "\<lparr>val = 5, mutex = Unlocked\<rparr>" 5 9]
        compareAndSwap_succeeds_iff_expected [of False "\<lparr>val = 7, mutex = Unlocked\<rparr>" 5 9]
  by simp

text \<open>
  The comparison of two scalars. The result is always one of -1, 0 and 1, it is 0 exactly
  for equal values, and exchanging the arguments negates it unless the values are 128
  apart modulo 256: then the difference is -128 as an \<^verbatim>\<open>int8_t\<close> in both orders.
\<close>

lemma sint_minus_word8:
  assumes "w \<noteq> (128 :: 8 word)"
  shows "sint (- w) = - sint w"
proof -
  have lower: "- 128 \<le> sint w" using sint_ge [of w] by simp
  have upper: "sint w < 128" using sint_lt [of w] by simp
  have not_min: "sint w \<noteq> - 128"
  proof
    assume "sint w = - 128"
    then have "sint w = sint (128 :: 8 word)" by simp
    then have "w = 128" by (rule signed_word_eqI)
    with assms show False by simp
  qed
  have "signed_take_bit 7 (- sint w) = - sint w"
    by (rule signed_take_bit_int_eq_self) (use lower upper not_min in simp_all)
  then show ?thesis by (simp add: sint_word_minus)
qed

lemma Compare_range: "parcAtomicUint8_Compare b x y \<in> {- 1, 0, 1}"
  by (simp add: parcAtomicUint8_Compare_def Let_def)

lemma Compare_zero_iff: "parcAtomicUint8_Compare b x y = 0 \<longleftrightarrow> val x = val y"
proof -
  have "sint (val x - val y) = 0 \<longleftrightarrow> val x = val y"
    by (metis eq_iff_diff_eq_0 signed_eq_0_iff)
  then show ?thesis
    by (auto simp: parcAtomicUint8_Compare_def Let_def parcAtomicUint8_GetValue_def
          int8_t_of_int_def)
qed

lemma Compare_antisymmetric_unless_128:
  "val x - val y \<noteq> 128 \<Longrightarrow>
   parcAtomicUint8_Compare b x y = - parcAtomicUint8_Compare b y x"
  using sint_minus_word8 [of "val x - val y"]
  by (simp add: parcAtomicUint8_Compare_def Let_def parcAtomicUint8_GetValue_def
        int8_t_of_int_def)

text \<open>
  Claim C2 says that \<^verbatim>\<open>parcAtomicUint8_Compare(a, b)\<close> is the negation of
  \<^verbatim>\<open>parcAtomicUint8_Compare(b, a)\<close> for every pair of values. The code does not do
  that for the values 128 and 0: it returns -1 in both orders, in either build.
\<close>

theorem Compare_128_and_0:
  "parcAtomicUint8_Compare False \<lparr>val = 128, mutex = Unlocked\<rparr> \<lparr>val = 0, mutex = Unlocked\<rparr> = - 1
   \<and> parcAtomicUint8_Compare False \<lparr>val = 0, mutex = Unlocked\<rparr> \<lparr>val = 128, mutex = Unlocked\<rparr> = - 1
   \<and> parcAtomicUint8_Compare True \<lparr>val = 128, mutex = Unlocked\<rparr> \<lparr>val = 0, mutex = Unlocked\<rparr> = - 1
   \<and> parcAtomicUint8_Compare True \<lparr>val = 0, mutex = Unlocked\<rparr> \<lparr>val = 128, mutex = Unlocked\<rparr> = - 1"
  by (simp add: parcAtomicUint8_Compare_def parcAtomicUint8_GetValue_def int8_t_of_int_def)

text \<open>
  Claim C4. Applied to the same scalar, whose mutex is free, with the same arguments,
  get, add, subtract and compare-and-swap of the build with the mutex and of the build
  with the compiler's atomic builtins return the same result and leave the same scalar
  behind; the calls return, with the results written out here.
\<close>

theorem backends_agree:
  assumes "mutex s = Unlocked"
  shows "parcAtomicUint8_GetValue True s = parcAtomicUint8_GetValue False s
       \<and> parcAtomicUint8_AddImpl True s d = parcAtomicUint8_AddImpl False s d
       \<and> parcAtomicUint8_AddImpl False s d = Some (val s + d, s\<lparr>val := val s + d\<rparr>)
       \<and> parcAtomicUint8_SubtractImpl True s d = parcAtomicUint8_SubtractImpl False s d
       \<and> parcAtomicUint8_SubtractImpl False s d = Some (val s - d, s\<lparr>val := val s - d\<rparr>)
       \<and> parcAtomicUint8_CompareAndSwapImpl True s x y
           = parcAtomicUint8_CompareAndSwapImpl False s x y
       \<and> parcAtomicUint8_CompareAndSwapImpl False s x y
           = Some (if val s = x then (True, s\<lparr>val := y\<rparr>) else (False, s))"
  using assms
  by (simp add: AddImpl_eq SubtractImpl_eq CompareAndSwapImpl_eq parcAtomicUint8_GetValue_def)

theorem backends_agree_witness:
  "parcAtomicUint8_GetValue True (parcAtomicUint8_Create True 200) = 200
   \<and> parcAtomicUint8_GetValue False (parcAtomicUint8_Create True 200) = 200
   \<and> parcAtomicUint8_AddImpl True (parcAtomicUint8_Create True 200) 100
       = Some (44, \<lparr>val = 44, mutex = Unlocked\<rparr>)
   \<and> parcAtomicUint8_AddImpl False (parcAtomicUint8_Create True 200) 100
       = Some (44, \<lparr>val = 44, mutex = Unlocked\<rparr>)
   \<and> parcAtomicUint8_CompareAndSwapImpl True (parcAtomicUint8_Create True 200) 200 1
       = parcAtomicUint8_CompareAndSwapImpl False (parcAtomicUint8_Create True 200) 200 1"
  using backends_agree [of "parcAtomicUint8_Create True 200" 100 200 1]
  by (simp add: parcAtomicUint8_Create_def pthread_mutex_init_def parcAtomicUint8_GetValue_def)

text \<open>
  Claim C5. In either build, on a scalar that holds \<open>v\<close>, add of \<open>d\<close> returns and stores
  \<open>(v + d) mod 2 ^ 8\<close> and subtract of \<open>d\<close> returns and stores \<open>(v - d) mod 2 ^ 8\<close>, read
  as unsigned integers; both return for every \<open>v\<close> and \<open>d\<close>.
\<close>

theorem add_subtract_modulo_256:
  assumes "DISABLE_ATOMICS \<longrightarrow> mutex s = Unlocked"
  shows "(let r = val s + d in
            parcAtomicUint8_AddImpl DISABLE_ATOMICS s d = Some (r, s\<lparr>val := r\<rparr>)
            \<and> uint r = (uint (val s) + uint d) mod 2 ^ 8)
       \<and> (let r = val s - d in
            parcAtomicUint8_SubtractImpl DISABLE_ATOMICS s d = Some (r, s\<lparr>val := r\<rparr>)
            \<and> uint r = (uint (val s) - uint d) mod 2 ^ 8)"
  using AddImpl_eq [OF assms, of d] SubtractImpl_eq [OF assms, of d]
  by (simp add: Let_def uint_word_ariths)

theorem add_subtract_modulo_256_witness:
  "parcAtomicUint8_AddImpl True \<lparr>val = 250, mutex = Unlocked\<rparr> 10
     = Some (4, \<lparr>val = 4, mutex = Unlocked\<rparr>)
   \<and> parcAtomicUint8_SubtractImpl True \<lparr>val = 3, mutex = Unlocked\<rparr> 5
     = Some (254, \<lparr>val = 254, mutex = Unlocked\<rparr>)
   \<and> parcAtomicUint8_AddImpl False \<lparr>val = 250, mutex = Unlocked\<rparr> 10
     = Some (4, \<lparr>val = 4, mutex = Unlocked\<rparr>)
   \<and> parcAtomicUint8_SubtractImpl False \<lparr>val = 3, mutex = Unlocked\<rparr> 5
     = Some (254, \<lparr>val = 254, mutex = Unlocked\<rparr>)"
  using add_subtract_modulo_256 [of True "\<lparr>val = 250, mutex = Unlocked\<rparr>" 10]
        add_subtract_modulo_256 [of True "\<lparr>val = 3, mutex = Unlocked\<rparr>" 5]
        add_subtract_modulo_256 [of False "\<lparr>val = 250, mutex = Unlocked\<rparr>" 10]
        add_subtract_modulo_256 [of False "\<lparr>val = 3, mutex = Unlocked\<rparr>" 5]
  by (simp add: Let_def)

section \<open>Properties of the key/value pair\<close>

text \<open>
  Claim C7. When the objects' own equality and hash code agree (equal objects have the
  same hash code), two key/value pairs that \<^verbatim>\<open>parcKeyValue_Equals\<close> finds equal have
  the same \<^verbatim>\<open>parcKeyValue_HashCode\<close>.
\<close>

theorem equal_key_values_hash_alike:
  assumes "\<forall>x y. parcObject_Equals x y \<longrightarrow> parcObject_HashCode x = parcObject_HashCode y"
    and "parcKeyValue_Equals parcObject_Equals a b"
  shows "parcKeyValue_HashCode parcObject_HashCode a = parcKeyValue_HashCode parcObject_HashCode b"
proof -
  from assms(2) have "parcObject_Equals (key a) (key b)"
    by (simp add: parcKeyValue_Equals_def Let_def split: if_splits)
  with assms(1) show ?thesis
    by (simp add: parcKeyValue_HashCode_def)
qed

theorem equal_key_values_hash_alike_witness:
  "parcKeyValue_Equals (\<lambda>x y :: nat. x mod 10 = y mod 10)
      \<lparr>key = 13, kv_value = Some 4\<rparr> \<lparr>key = 23, kv_value = Some 14\<rparr>
   \<and> parcKeyValue_HashCode (\<lambda>x :: nat. x mod 5) \<lparr>key = 13, kv_value = Some 4\<rparr>
     = parcKeyValue_HashCode (\<lambda>x :: nat. x mod 5) \<lparr>key = 23, kv_value = Some (14 :: nat)\<rparr>"
proof -
  have contract: "\<forall>x y :: nat. x mod 10 = y mod 10 \<longrightarrow> x mod 5 = y mod 5"
  proof (intro allI impI)
    fix x y :: nat
    assume "x mod 10 = y mod 10"
    then have "x mod 10 mod 5 = y mod 10 mod 5" by simp
    then show "x mod 5 = y mod 5" by (simp add: mod_mod_cancel)
  qed
  have eq: "parcKeyValue_Equals (\<lambda>x y :: nat. x mod 10 = y mod 10)
      \<lparr>key = 13, kv_value = Some 4\<rparr> \<lparr>key = 23, kv_value = Some 14\<rparr>"
    by (simp add: parcKeyValue_Equals_def)
  from equal_key_values_hash_alike [OF contract eq] eq show ?thesis by simp
qed

text \<open>
  Claim C8. For every key/value pair \<open>a\<close>, \<^verbatim>\<open>parcKeyValue_Compare(a, NULL)\<close> is 1,
  \<^verbatim>\<open>parcKeyValue_Compare(NULL, a)\<close> is -1 and \<^verbatim>\<open>parcKeyValue_Compare(NULL, NULL)\<close> is 0.
\<close>

theorem Compare_against_NULL:
  "parcKeyValue_Compare parcObject_Compare (Some a) None = 1
   \<and> parcKeyValue_Compare parcObject_Compare None (Some a) = - 1
   \<and> parcKeyValue_Compare parcObject_Compare None None = 0"
  by (simp add: parcKeyValue_Compare_def)

section \<open>Properties of the identity file and the logger\<close>

lemma CreateInstance_fails:
  "\<not> available m (requests m) \<Longrightarrow>
   parcObject_CreateInstance m = (False, m\<lparr>requests := requests m + 1\<rparr>)"
  by (simp add: parcObject_CreateInstance_def parcMemory_Allocate_def)

text \<open>
  Claim C6 says that both factories hand an allocation failure to their caller as a
  result the caller can check. \<^verbatim>\<open>parcLog_Create\<close> does not: with no memory for the
  instance it traps, and nothing is returned to the caller.
\<close>

theorem parcLog_Create_traps:
  "fst (parcLog_Create no_memory None None None \<lparr>references = 1\<rparr>) = Inl OutOfMemory"
  by (simp add: parcLog_Create_def parcObject_CreateInstance_def parcMemory_Allocate_def
        no_memory_def)

text \<open>
  Claim C6, as the code has it. When the allocation of the instance fails,
  \<^verbatim>\<open>parcIdentityFile_Create\<close> returns \<^verbatim>\<open>NULL\<close> to its caller and \<^verbatim>\<open>parcLog_Create\<close>
  traps with the out-of-memory event; each has made that one allocation request and no
  other, and no instance exists.
\<close>

theorem Create_when_instance_allocation_fails:
  assumes "\<not> available m (requests m)"
  shows "parcIdentityFile_Create m f p = (None, m\<lparr>requests := requests m + 1\<rparr>)
       \<and> parcLog_Create m h a i r = (Inl OutOfMemory, m\<lparr>requests := requests m + 1\<rparr>)"
  using CreateInstance_fails [OF assms]
  by (simp add: parcIdentityFile_Create_def parcLog_Create_def)

theorem Create_when_instance_allocation_fails_witness:
  "parcIdentityFile_Create no_memory ''id.p12'' ''secret''
     = (None, no_memory\<lparr>requests := 1\<rparr>)
   \<and> parcLog_Create no_memory None (Some ''app'') None \<lparr>references = 1\<rparr>
     = (Inl OutOfMemory, no_memory\<lparr>requests := 1\<rparr>)"
  using Create_when_instance_allocation_fails
          [of no_memory "''id.p12''" "''secret''" None "Some ''app''" None "\<lparr>references = 1\<rparr>"]
  by (simp add: no_memory_def)

text \<open>\<^verbatim>\<open>strcmp\<close> is 0 exactly on equal strings, so its test against 0 is symmetric.\<close>

lemma strcmp_bytes_zero_iff: "strcmp_bytes a b = 0 \<longleftrightarrow> a = b"
  by (induction a b rule: strcmp_bytes.induct) auto

lemma strcmp_cases:
  "strcmp s t = (case s of None \<Rightarrow> Inl UndefinedBehaviour
                 | Some a \<Rightarrow> (case t of None \<Rightarrow> Inl UndefinedBehaviour
                              | Some b \<Rightarrow> Inr (strcmp_bytes a b)))"
  by (simp add: strcmp_def split: option.splits)

lemma Equals_symmetric: "parcIdentityFile_Equals h a b = parcIdentityFile_Equals h b a"
proof (cases "a = b")
  case True
  then show ?thesis by simp
next
  case False
  then have "b \<noteq> a" by blast
  with False show ?thesis
    by (auto simp: parcIdentityFile_Equals_def parcIdentityFile_GetFileName_def
          parcIdentityFile_GetPassWord_def strcmp_cases strcmp_bytes_zero_iff
          split: option.splits sum.splits)
qed

text \<open>
  Claim C9. \<^verbatim>\<open>parcIdentityFile_Equals\<close> is reflexive on every pointer that is not
  \<^verbatim>\<open>NULL\<close>, gives the same result when its arguments are exchanged, and is false for
  a pointer that is not \<^verbatim>\<open>NULL\<close> against \<^verbatim>\<open>NULL\<close>.
\<close>

theorem Equals_reflexive_symmetric:
  "parcIdentityFile_Equals h (Some x) (Some x) = Inr True
   \<and> parcIdentityFile_Equals h a b = parcIdentityFile_Equals h b a
   \<and> parcIdentityFile_Equals h (Some x) None = Inr False"
  using Equals_symmetric [of h a b] by (simp add: parcIdentityFile_Equals_def)

text \<open>
  Claim C10. \<^verbatim>\<open>parcIdentityFile_Equals(NULL, NULL)\<close> is true, since the pointers are
  compared first, although \<^verbatim>\<open>NULL\<close> against any other pointer is false in both orders.
\<close>

theorem Equals_NULL_NULL:
  "parcIdentityFile_Equals h None None = Inr True
   \<and> parcIdentityFile_Equals h (Some x) None = Inr False
   \<and> parcIdentityFile_Equals h None (Some x) = Inr False"
  by (simp add: parcIdentityFile_Equals_def)

section \<open>Properties of the ring buffer\<close>

lemma drain_Empty: "drain d (replicate k Empty) w = w"
  by (induction k) simp_all

lemma drain_Filled: "drain d (map Filled xs @ replicate k Empty) w = fold d xs w"
  by (induction xs arbitrary: w) (simp_all add: drain_Empty)

text \<open>
  While no item is removed, the ring holds the items put so far in its first slots: one
  more Put, with room left, extends them by one.
\<close>

lemma Put_next:
  assumes "length ys < n"
  shows "parcRingBufferNxM_Put
           \<lparr>capacity = n, slots = map Filled ys @ replicate (n - length ys) Empty, head = 0,
            tail = length ys mod n, count = length ys, state = Active, destroyer = d\<rparr> x
         = Inr \<lparr>capacity = n,
                slots = map Filled (ys @ [x]) @ replicate (n - length (ys @ [x])) Empty,
                head = 0, tail = length (ys @ [x]) mod n, count = length (ys @ [x]),
                state = Active, destroyer = d\<rparr>"
proof -
  from assms obtain k where k: "n - length ys = Suc k"
    by (metis Suc_diff_Suc)
  then have k': "n - Suc (length ys) = k" by simp
  have "(map Filled ys @ replicate (n - length ys) Empty)[length ys := Filled x]
        = map Filled ys @ Filled x # replicate k Empty"
    by (simp add: k list_update_append)
  with assms show ?thesis
    by (simp add: parcRingBufferNxM_Put_def k' mod_Suc_eq)
qed

lemma put_all_fills:
  assumes "length ys + length xs \<le> n"
  shows "put_all
           \<lparr>capacity = n, slots = map Filled ys @ replicate (n - length ys) Empty, head = 0,
            tail = length ys mod n, count = length ys, state = Active, destroyer = d\<rparr> xs
         = Inr \<lparr>capacity = n,
                slots = map Filled (ys @ xs) @ replicate (n - length (ys @ xs)) Empty,
                head = 0, tail = length (ys @ xs) mod n, count = length (ys @ xs),
                state = Active, destroyer = d\<rparr>"
  using assms
proof (induction xs arbitrary: ys)
  case Nil
  then show ?case by simp
next
  case (Cons x xs)
  from Cons.prems have lt: "length ys < n" and le: "length (ys @ [x]) + length xs \<le> n"
    by simp_all
  show ?case
    using Cons.IH [OF le] by (simp only: put_all.simps Put_next [OF lt] sum.case) simp
qed

lemma destroy_test_eq:
  assumes "1 \<le> n" and "length items \<le> n"
  shows "destroy_test n d items w
         = Inr (\<lparr>capacity = n, slots = [], head = 0, tail = length items mod n, count = 0,
                 state = Destroyed, destroyer = d\<rparr>, fold d items w)"
proof -
  have "put_all \<lparr>capacity = n, slots = replicate n Empty, head = 0, tail = 0, count = 0,
                 state = Active, destroyer = d\<rparr> items
        = Inr \<lparr>capacity = n, slots = map Filled items @ replicate (n - length items) Empty,
               head = 0, tail = length items mod n, count = length items,
               state = Active, destroyer = d\<rparr>"
    using put_all_fills [of "[]" items n d] assms(2) by simp
  with assms(1) show ?thesis
    by (simp add: destroy_test_def parcRingBufferNxM_Create_def parcRingBufferNxM_Release_def
          drain_Filled)
qed

lemma fold_record_call: "fold record_call xs ys = ys @ xs"
  by (induction xs arbitrary: ys) (simp_all add: record_call_def)

text \<open>Releasing distinct buffers, each with one reference, frees exactly those buffers.\<close>

lemma fold_testDestoryer:
  assumes "distinct xs" and "\<forall>x \<in> set xs. refs x = Some 1"
  shows "fold testDestoryer xs (Inr refs) = Inr (\<lambda>h. if h \<in> set xs then None else refs h)"
  using assms
proof (induction xs arbitrary: refs)
  case Nil
  then show ?case by simp
next
  case (Cons x xs)
  have step: "testDestoryer x (Inr refs) = Inr (refs(x := None))"
    using Cons.prems(2) by (simp add: testDestoryer_def parcBuffer_Release_def)
  have "fold testDestoryer xs (Inr (refs(x := None)))
        = Inr (\<lambda>h. if h \<in> set xs then None else (refs(x := None)) h)"
    using Cons.prems by (intro Cons.IH) auto
  then show ?case by (auto simp: step)
qed

text \<open>
  Claim C3. For a ring of capacity \<open>n\<close> of at least 1 and \<open>M\<close> items, \<open>M\<close> at most \<open>n\<close>:
  creating the ring, putting the items and releasing the ring with no Get in between
  completes, and applies the destroyer callback to the items, each once, in the order
  they were put (so the calls recorded are exactly the items, \<open>M\<close> of them). When the
  callback is the test's, the items are distinct buffers with one reference each and
  nothing else is allocated, no allocation is outstanding afterwards.
\<close>

theorem destroy_drains_every_item:
  assumes "1 \<le> n" and "length items \<le> n"
  shows "destroy_test n d items w
           = Inr (\<lparr>capacity = n, slots = [], head = 0, tail = length items mod n, count = 0,
                   state = Destroyed, destroyer = d\<rparr>, fold d items w)
       \<and> snd (projr (destroy_test n record_call items [])) = items
       \<and> (distinct items \<and> dom refs = set items \<and> (\<forall>b \<in> set items. refs b = Some 1) \<longrightarrow>
            snd (projr (destroy_test n testDestoryer items (Inr refs))) = Inr Map.empty)"
proof (intro conjI impI)
  show "destroy_test n d items w
           = Inr (\<lparr>capacity = n, slots = [], head = 0, tail = length items mod n, count = 0,
                   state = Destroyed, destroyer = d\<rparr>, fold d items w)"
    by (rule destroy_test_eq [OF assms])
  show "snd (projr (destroy_test n record_call items [])) = items"
    by (simp add: destroy_test_eq [OF assms] fold_record_call)
  assume a: "distinct items \<and> dom refs = set items \<and> (\<forall>b \<in> set items. refs b = Some 1)"
  then have "fold testDestoryer items (Inr refs)
             = Inr (\<lambda>h. if h \<in> set items then None else refs h)"
    by (intro fold_testDestoryer) simp_all
  moreover have "(\<lambda>h. if h \<in> set items then None else refs h) = Map.empty"
    using a by (auto simp: fun_eq_iff dom_def)
  ultimately show "snd (projr (destroy_test n testDestoryer items (Inr refs))) = Inr Map.empty"
    by (simp add: destroy_test_eq [OF assms])
qed

theorem destroy_drains_every_item_witness:
  "snd (projr (destroy_test 128 record_call [7 :: nat] [])) = [7]
   \<and> snd (projr (destroy_test 128 testDestoryer [7] (Inr [7 \<mapsto> 1]))) = Inr Map.empty
   \<and> snd (projr (destroy_test 2 record_call [3 :: nat, 5] [])) = [3, 5]
   \<and> snd (projr (destroy_test 2 testDestoryer [3, 5] (Inr [3 \<mapsto> 1, 5 \<mapsto> 1])))
       = Inr Map.empty"
  using destroy_drains_every_item [of 128 "[7]" record_call "[]" "[7 \<mapsto> 1]"]
        destroy_drains_every_item [of 2 "[3, 5]" record_call "[]" "[3 \<mapsto> 1, 5 \<mapsto> 1]"]
  by (simp add: insert_commute record_call_def)

end
